theory Spec2Isabelle
  imports Main "HOL-Library.Word"
begin

section \<open>Go strings: the library functions the program calls\<close>

text \<open>
  A Go string is a sequence of bytes; it is modelled as a \<open>string\<close> (a list of
  8-bit characters). The functions below are the ones of package \<open>strings\<close> that
  \<open>getpatch.go\<close>, \<open>filter_changelog.go\<close> and \<open>loggedexec.go\<close> call.
\<close>

definition HasPrefix :: "string \<Rightarrow> string \<Rightarrow> bool" where
  "HasPrefix s pre = (length pre \<le> length s \<and> take (length pre) s = pre)"

text \<open>\<open>strings.Contains(s, sub)\<close>: some suffix of \<open>s\<close> starts with \<open>sub\<close>.\<close>

fun Contains :: "string \<Rightarrow> string \<Rightarrow> bool" where
  "Contains [] sub = (sub = [])"
| "Contains (c # s) sub = (HasPrefix (c # s) sub \<or> Contains s sub)"

text \<open>
  \<open>strings.Replace(s, old, new, 1)\<close>: the first (leftmost) occurrence of \<open>old\<close> is
  replaced; an empty \<open>old\<close> matches at the beginning of the string.
\<close>

fun Replace1 :: "string \<Rightarrow> string \<Rightarrow> string \<Rightarrow> string" where
  "Replace1 [] old new = (if old = [] then new else [])"
| "Replace1 (c # s) old new =
     (if HasPrefix (c # s) old then new @ drop (length old) (c # s)
      else c # Replace1 s old new)"

text \<open>\<open>strings.Split(s, sep)\<close> for a separator of one byte (the program splits on a tab).\<close>

fun Split :: "char \<Rightarrow> string \<Rightarrow> string list" where
  "Split sep [] = [[]]"
| "Split sep (c # s) =
     (if c = sep then [] # Split sep s
      else (case Split sep s of [] \<Rightarrow> [[c]] | x # xs \<Rightarrow> (c # x) # xs))"

text \<open>\<open>strings.Join(elems, sep)\<close>.\<close>

fun Join :: "string list \<Rightarrow> string \<Rightarrow> string" where
  "Join [] sep = []"
| "Join [x] sep = x"
| "Join (x # y # ys) sep = x @ sep @ Join (y # ys) sep"

text \<open>
  \<open>strings.TrimSpace\<close> removes leading and trailing white space as Unicode defines it.
  On the UTF-8 bytes of a Go string these are the encodings below: the six ASCII
  characters, U+0085, U+00A0, U+1680, U+2000 to U+200A, U+2028, U+2029, U+202F, U+205F
  and U+3000.
\<close>

definition space_runes :: "string list" where
  "space_runes =
     [[CHR 0x09], [CHR 0x0A], [CHR 0x0B], [CHR 0x0C], [CHR 0x0D], [CHR 0x20],
      [CHR 0xC2, CHR 0x85], [CHR 0xC2, CHR 0xA0], [CHR 0xE1, CHR 0x9A, CHR 0x80],
      [CHR 0xE2, CHR 0x80, CHR 0x80], [CHR 0xE2, CHR 0x80, CHR 0x81],
      [CHR 0xE2, CHR 0x80, CHR 0x82], [CHR 0xE2, CHR 0x80, CHR 0x83],
      [CHR 0xE2, CHR 0x80, CHR 0x84], [CHR 0xE2, CHR 0x80, CHR 0x85],
      [CHR 0xE2, CHR 0x80, CHR 0x86], [CHR 0xE2, CHR 0x80, CHR 0x87],
      [CHR 0xE2, CHR 0x80, CHR 0x88], [CHR 0xE2, CHR 0x80, CHR 0x89],
      [CHR 0xE2, CHR 0x80, CHR 0x8A], [CHR 0xE2, CHR 0x80, CHR 0xA8],
      [CHR 0xE2, CHR 0x80, CHR 0xA9], [CHR 0xE2, CHR 0x80, CHR 0xAF],
      [CHR 0xE2, CHR 0x81, CHR 0x9F], [CHR 0xE3, CHR 0x80, CHR 0x80]]"

text \<open>The number of bytes of the first rune of \<open>rs\<close> that \<open>s\<close> starts with; 0 when there is none.\<close>

fun leading :: "string list \<Rightarrow> string \<Rightarrow> nat" where
  "leading [] s = 0"
| "leading (r # rs) s = (if HasPrefix s r then length r else leading rs s)"

fun TrimLeft :: "string list \<Rightarrow> string \<Rightarrow> string" where
  "TrimLeft rs [] = []"
| "TrimLeft rs (c # s) =
     (if leading rs (c # s) = 0 then c # s
      else TrimLeft rs (drop (leading rs (c # s) - 1) s))"

definition TrimSpace :: "string \<Rightarrow> string" where
  "TrimSpace s = rev (TrimLeft (map rev space_runes) (rev (TrimLeft space_runes s)))"

section \<open>Go path/filepath (Unix)\<close>

text \<open>
  \<open>filepath.Clean\<close> works on the components between slashes: empty components and
  \<open>.\<close> are dropped, \<open>..\<close> removes the component before it, is dropped at the root, and
  is kept at the start of a relative path. The stack \<open>out\<close> holds the components kept
  so far, the last one first.
\<close>

fun clean_comps :: "bool \<Rightarrow> string list \<Rightarrow> string list \<Rightarrow> string list" where
  "clean_comps rooted out [] = rev out"
| "clean_comps rooted out (c # cs) =
     (if c = [] \<or> c = ''.'' then clean_comps rooted out cs
      else if c = ''..'' then
        (case out of
           [] \<Rightarrow> if rooted then clean_comps rooted [] cs else clean_comps rooted [''..''] cs
         | t # ts \<Rightarrow>
             if t = ''..'' then clean_comps rooted (''..'' # out) cs
             else clean_comps rooted ts cs)
      else clean_comps rooted (c # out) cs)"

definition Clean :: "string \<Rightarrow> string" where
  "Clean path =
     (let rooted = HasPrefix path ''/'';
          out = clean_comps rooted [] (Split (CHR ''/'') path);
          s = (if rooted then ''/'' else []) @ Join out ''/''
      in if s = [] then ''.'' else s)"

text \<open>\<open>filepath.Join\<close>: leading empty elements are ignored, the rest is joined and cleaned.\<close>

fun filepath_Join :: "string list \<Rightarrow> string" where
  "filepath_Join [] = []"
| "filepath_Join (e # es) = (if e = [] then filepath_Join es else Clean (Join (e # es) ''/''))"

declare filepath_Join.simps [simp del]

text \<open>\<open>filepath.Dir\<close>: everything up to the last slash, cleaned.\<close>

definition Dir_of :: "string \<Rightarrow> string" where
  "Dir_of path = Clean (rev (dropWhile (\<lambda>c. c \<noteq> CHR ''/'') (rev path)))"



section \<open>The file system and the environment\<close>

text \<open>
  The state the program works on: the regular files with their contents, the
  directories, the process-wide invocation counter \<open>cmdCount\<close> of package loggedexec
  (a Go \<open>int\<close>, taken as 64 bits wide), and the lines the \<open>Logger\<close> has printed.
\<close>

record world =
  files :: "string \<rightharpoonup> string"
  dirs :: "string set"
  cmdCount :: "64 word"
  logged :: "string list"

datatype fs_op =
    OpTempFile string
  | OpTempDir string
  | OpOpen string
  | OpClose string
  | OpRename string string
  | OpRemove string
  | OpWriteFile string
  | OpOpenFile string
  | OpGetwd
  | OpAbs

datatype error =
    IOError fs_op string
  | NotExist string
  | Exist string
  | IsDirectory string
  | ReadError string
  | ErrTooLong
  | IndexOutOfRange
  | ProcessError string
  | UnexpectedOutput "string list" string "string list"
  | ExecutionError string
  | UnsupportedSCM string string
  | PatchError string

text \<open>
  What the operating system supplies and the program cannot control: \<open>faults\<close> gives the
  operations that fail for a reason outside the model (permissions, a full disk) with
  the text of the error; \<open>read_error\<close> makes reading a file fail after that many bytes;
  \<open>rnd\<close> is the random suffix \<open>ioutil.TempFile\<close> and \<open>ioutil.TempDir\<close> draw;
  \<open>TMPDIR\<close> is \<open>os.TempDir()\<close>, \<open>cwd\<close> is \<open>os.Getwd()\<close>, \<open>self\<close> is
  \<open>filepath.Abs(os.Args[0])\<close> and \<open>environ\<close> holds the environment variables of the
  process. The last four fields are functions of the Go library that the model does not
  spell out: \<open>Quote\<close> is the verb \<open>%q\<close> on a string (\<open>strconv.Quote\<close>), \<open>show_time\<close>
  and \<open>show_duration\<close> are the verb \<open>%v\<close> on a \<open>time.Time\<close> and a \<open>time.Duration\<close>
  (both counted in nanoseconds), and \<open>Sprintf_other\<close> is \<open>fmt.Sprintf\<close> with one \<open>int\<close>
  argument on a format other than the default \<open>LogFmt\<close>.
\<close>

record env =
  faults :: "fs_op \<Rightarrow> string option"
  read_error :: "string \<Rightarrow> (nat \<times> string) option"
  rnd :: string
  TMPDIR :: string
  cwd :: string
  self :: string
  environ :: "(string \<times> string) list"
  Quote :: "string \<Rightarrow> string"
  show_time :: "int \<Rightarrow> string"
  show_duration :: "int \<Rightarrow> string"
  Sprintf_other :: "string \<Rightarrow> int \<Rightarrow> string"

text \<open>
  \<open>ioutil.TempFile(dir, prefix)\<close> creates a new, empty file with \<open>O_EXCL\<close>. The model
  draws one random suffix; a name that is taken is the error the function gives when
  its retries are used up.
\<close>

definition TempFile :: "env \<Rightarrow> string \<Rightarrow> string \<Rightarrow> world \<Rightarrow> error + (string \<times> world)" where
  "TempFile e dir pre w =
     (let d = (if dir = [] then TMPDIR e else dir);
          name = filepath_Join [d, pre @ rnd e]
      in case faults e (OpTempFile name) of
           Some x \<Rightarrow> Inl (IOError (OpTempFile name) x)
         | None \<Rightarrow>
             if d \<notin> dirs w then Inl (NotExist d)
             else if files w name \<noteq> None \<or> name \<in> dirs w then Inl (Exist name)
             else Inr (name, w\<lparr>files := (files w)(name \<mapsto> [])\<rparr>))"

text \<open>\<open>os.Open(path)\<close> followed by reading: the bytes a reader of the file gets.\<close>

definition Open :: "env \<Rightarrow> string \<Rightarrow> world \<Rightarrow> error + string" where
  "Open e path w =
     (case faults e (OpOpen path) of
        Some x \<Rightarrow> Inl (IOError (OpOpen path) x)
      | None \<Rightarrow>
          (case files w path of
             Some content \<Rightarrow> Inr content
           | None \<Rightarrow> if path \<in> dirs w then Inl (IsDirectory path) else Inl (NotExist path)))"

text \<open>\<open>os.Remove(name)\<close>, its error ignored as the program ignores it.\<close>

definition Remove :: "env \<Rightarrow> string \<Rightarrow> world \<Rightarrow> world" where
  "Remove e name w =
     (case faults e (OpRemove name) of
        Some x \<Rightarrow> w
      | None \<Rightarrow> w\<lparr>files := (files w)(name := None)\<rparr>)"

text \<open>
  \<open>os.Rename(src, dst)\<close> of a regular file: atomic, the destination is replaced or left
  as it was.
\<close>

definition Rename :: "env \<Rightarrow> string \<Rightarrow> string \<Rightarrow> world \<Rightarrow> error + world" where
  "Rename e src dst w =
     (case faults e (OpRename src dst) of
        Some x \<Rightarrow> Inl (IOError (OpRename src dst) x)
      | None \<Rightarrow>
          (case files w src of
             None \<Rightarrow> Inl (NotExist src)
           | Some content \<Rightarrow>
               if dst \<in> dirs w then Inl (IsDirectory dst)
               else if Dir_of dst \<notin> dirs w then Inl (NotExist dst)
               else Inr (w\<lparr>files := ((files w)(src := None))(dst \<mapsto> content)\<rparr>)))"

text \<open>
  \<open>ioutil.WriteFile\<close> and \<open>os.OpenFile\<close> with \<open>O_RDWR|O_CREATE|O_TRUNC\<close>: the file is
  created or truncated, in a directory that exists.
\<close>

definition WriteFile :: "env \<Rightarrow> string \<Rightarrow> string \<Rightarrow> world \<Rightarrow> error + world" where
  "WriteFile e name content w =
     (case faults e (OpWriteFile name) of
        Some x \<Rightarrow> Inl (IOError (OpWriteFile name) x)
      | None \<Rightarrow>
          if name \<in> dirs w then Inl (IsDirectory name)
          else if Dir_of name \<notin> dirs w then Inl (NotExist name)
          else Inr (w\<lparr>files := (files w)(name \<mapsto> content)\<rparr>))"

definition OpenFile :: "env \<Rightarrow> string \<Rightarrow> world \<Rightarrow> error + world" where
  "OpenFile e name w =
     (case faults e (OpOpenFile name) of
        Some x \<Rightarrow> Inl (IOError (OpOpenFile name) x)
      | None \<Rightarrow>
          if name \<in> dirs w then Inl (IsDirectory name)
          else if Dir_of name \<notin> dirs w then Inl (NotExist name)
          else Inr (w\<lparr>files := (files w)(name \<mapsto> [])\<rparr>))"

text \<open>\<open>fmt.Fprintln(w, s)\<close> of one string: the string and a newline.\<close>

definition Fprintln :: "string \<Rightarrow> string" where
  "Fprintln s = s @ [CHR 0x0A]"

section \<open>bufio.Scanner with the default split function ScanLines\<close>

text \<open>
  A line ends at a newline; one carriage return before it is dropped; the last line
  needs no newline and is not delivered when it is empty. The scanner's buffer holds
  \<open>MaxScanTokenSize\<close> bytes: a line that does not fit (64 KiB or more before its
  newline) stops the scan with \<open>ErrTooLong\<close>. \<open>Scan cur data\<close> gives the tokens of the
  bytes \<open>data\<close> still to read, \<open>cur\<close> being the bytes of the current line read so far,
  and the error \<open>scanner.Err()\<close> reports.
\<close>

definition MaxScanTokenSize :: nat where
  "MaxScanTokenSize = 64 * 1024"

definition dropCR :: "string \<Rightarrow> string" where
  "dropCR data = (if data \<noteq> [] \<and> last data = CHR 0x0D then butlast data else data)"

fun Scan :: "string \<Rightarrow> string \<Rightarrow> string list \<times> error option" where
  "Scan cur [] =
     (if cur = [] then ([], None)
      else if MaxScanTokenSize \<le> length cur then ([], Some ErrTooLong)
      else ([dropCR cur], None))"
| "Scan cur (c # data) =
     (if c = CHR 0x0A then
        (if MaxScanTokenSize \<le> length cur then ([], Some ErrTooLong)
         else (case Scan [] data of (ts, err) \<Rightarrow> (dropCR cur # ts, err)))
      else Scan (cur @ [c]) data)"

text \<open>
  Reading a file through the scanner: when the read fails after \<open>n\<close> bytes the scanner
  still delivers what these bytes hold and then reports the read error.
\<close>

definition scan_file :: "env \<Rightarrow> string \<Rightarrow> string \<Rightarrow> string list \<times> error option" where
  "scan_file e path content =
     (case read_error e path of
        None \<Rightarrow> Scan [] content
      | Some (n, x) \<Rightarrow>
          (case Scan [] (take n content) of
             (ts, None) \<Rightarrow> (ts, Some (ReadError x))
           | (ts, Some err) \<Rightarrow> (ts, Some err)))"

section \<open>filter\_changelog.go\<close>

text \<open>The variables of the loop of \<open>filterChangelog\<close>, and what has been printed to \<open>output\<close>.\<close>

record filter_state =
  lastSection :: string
  copyOnly :: bool
  lastLineEmpty :: bool
  printed :: string

definition filter_init :: filter_state where
  "filter_init = \<lparr>lastSection = [], copyOnly = False, lastLineEmpty = False, printed = []\<rparr>"

text \<open>One pass through the loop body, \<open>text\<close> being \<open>scanner.Text()\<close>.\<close>

definition filter_step :: "filter_state \<Rightarrow> string \<Rightarrow> filter_state" where
  "filter_step st text =
     (if copyOnly st then st\<lparr>printed := printed st @ Fprintln text\<rparr>
      else
        let lineEmpty = (text = []) in
        if HasPrefix text ''  [ '' then st\<lparr>lastSection := text\<rparr>
        else
          let st1 = (if HasPrefix text ''  * ''
                     then st\<lparr>printed := printed st @ Fprintln (lastSection st)\<rparr> else st);
              st2 = (if HasPrefix text '' -- '' then st1\<lparr>copyOnly := True\<rparr> else st1);
              st3 = (if lastLineEmpty st2 \<and> lineEmpty then st2
                     else st2\<lparr>printed := printed st2 @ Fprintln text\<rparr>)
          in st3\<lparr>lastLineEmpty := lineEmpty\<rparr>)"

text \<open>The loop over the lines of the input, and the bytes it prints for a whole file.\<close>

definition filter_lines :: "string list \<Rightarrow> string" where
  "filter_lines ls = printed (foldl filter_step filter_init ls)"

definition filterChangelog :: "env \<Rightarrow> string \<Rightarrow> world \<Rightarrow> error option \<times> world" where
  "filterChangelog e path w =
     (case TempFile e (Dir_of path) ''.mergebot-'' w of
        Inl err \<Rightarrow> (Some err, w)
      | Inr (tmp, w1) \<Rightarrow>
          (case Open e path w1 of
             Inl err \<Rightarrow> (Some err, Remove e tmp w1)
           | Inr input \<Rightarrow>
               (case scan_file e path input of
                  (ls, scan_err) \<Rightarrow>
                    let w2 = w1\<lparr>files := (files w1)(tmp \<mapsto> filter_lines ls)\<rparr> in
                    (case scan_err of
                       Some err \<Rightarrow> (Some err, Remove e tmp w2)
                     | None \<Rightarrow>
                         (case faults e (OpClose tmp) of
                            Some x \<Rightarrow> (Some (IOError (OpClose tmp) x), Remove e tmp w2)
                          | None \<Rightarrow>
                              (case Rename e tmp path w2 of
                                 Inl err \<Rightarrow> (Some err, Remove e tmp w2)
                               | Inr w3 \<Rightarrow> (None, Remove e tmp w3)))))))"

section \<open>Commands\<close>

text \<open>
  \<open>LoggedCmd\<close> embeds \<open>(os/exec).Cmd\<close>; the record holds the fields of both that the
  program reads or writes. \<open>Env\<close> is \<open>None\<close> for Go's \<open>nil\<close> slice.
\<close>

record LoggedCmd =
  Args :: "string list"
  Env :: "string list option"
  Dir :: string
  LogDir :: string
  LogFmt :: string

text \<open>\<open>loggedexec.Command(name, arg...)\<close>.\<close>

definition Command :: "string \<Rightarrow> string list \<Rightarrow> LoggedCmd" where
  "Command name arg =
     \<lparr>Args = name # arg, Env = None, Dir = [], LogDir = [], LogFmt = ''%03d-''\<rparr>"

section \<open>loggedexec.go\<close>

subsection \<open>Numbers in decimal\<close>

text \<open>The verb \<open>%d\<close> on an \<open>int\<close>, and the default \<open>LogFmt\<close>, \<open>%03d-\<close>: the number is
  padded with zeros to three characters, a minus sign counting as one of them.\<close>

function decimal :: "nat \<Rightarrow> string" where
  "decimal n = (if n < 10 then [''0123456789'' ! n] else decimal (n div 10) @ [''0123456789'' ! (n mod 10)])"
  by pat_completeness auto
termination
  by (relation "measure id") auto

declare decimal.simps [simp del]

definition itoa :: "int \<Rightarrow> string" where
  "itoa n = (if n < 0 then ''-'' @ decimal (nat (- n)) else decimal (nat n))"

definition fmt_03d :: "int \<Rightarrow> string" where
  "fmt_03d n =
     (let digits = decimal (nat \<bar>n\<bar>) in
      if n < 0 then ''-'' @ replicate (2 - length digits) (CHR ''0'') @ digits
      else replicate (3 - length digits) (CHR ''0'') @ digits)"

definition Sprintf_count :: "env \<Rightarrow> string \<Rightarrow> int \<Rightarrow> string" where
  "Sprintf_count e f n = (if f = ''%03d-'' then fmt_03d n @ ''-'' else Sprintf_other e f n)"

subsection \<open>capturingWriter\<close>

record capturingWriter =
  Data :: string
  newlineSeen :: bool

definition cw_init :: capturingWriter where
  "cw_init = \<lparr>Data = [], newlineSeen = False\<rparr>"

text \<open>\<open>bytes.LastIndexByte\<close> and \<open>strings.IndexByte\<close>: an index, or \<open>-1\<close>.\<close>

fun IndexByte :: "string \<Rightarrow> char \<Rightarrow> int" where
  "IndexByte [] c = -1"
| "IndexByte (x # s) c =
     (if x = c then 0 else (let i = IndexByte s c in if i = -1 then -1 else i + 1))"

definition LastIndexByte :: "string \<Rightarrow> char \<Rightarrow> int" where
  "LastIndexByte s c =
     (let i = IndexByte (rev s) c in if i = -1 then -1 else int (length s) - 1 - i)"

definition cw_Write :: "capturingWriter \<Rightarrow> string \<Rightarrow> capturingWriter" where
  "cw_Write c p =
     (if \<not> newlineSeen c
      then \<lparr>Data = Data c @ p, newlineSeen = (LastIndexByte p (CHR 0x0A) \<noteq> -1)\<rparr>
      else c)"

definition FirstLine :: "capturingWriter \<Rightarrow> string" where
  "FirstLine c =
     (let s = Data c; idx = IndexByte s (CHR 0x0A) in
      if idx = -1 then s else take (nat idx) s)"

subsection \<open>Run\<close>

definition quoteStrings :: "string list \<Rightarrow> string list" where
  "quoteStrings input = map (\<lambda>val. [CHR 0x22] @ val @ [CHR 0x22]) input"

text \<open>
  What one invocation gets from outside: the two readings of the clock, in
  nanoseconds; the error of \<open>(os/exec).Cmd.Run\<close> (the process did not start or did not
  exit with status 0), with its text; and the writes the child's standard output and
  standard error make to \<open>logWriter\<close>, in the order they arrive. Sinks the caller has
  put into \<open>Stdout\<close> and \<open>Stderr\<close> get the same bytes and are not part of the model.
\<close>

record outcome =
  started :: int
  finished :: int
  runErr :: "string option"
  chunks :: "string list"

text \<open>\<open>finished.Sub(started)\<close>: a \<open>time.Duration\<close> is an \<open>int64\<close> and the difference saturates.\<close>

definition time_Sub :: "int \<Rightarrow> int \<Rightarrow> int" where
  "time_Sub t u =
     (let d = t - u in
      if d < - (2 ^ 63) then - (2 ^ 63) else if 2 ^ 63 - 1 < d then 2 ^ 63 - 1 else d)"

definition Env_list :: "LoggedCmd \<Rightarrow> string list" where
  "Env_list l = (case Env l of None \<Rightarrow> [] | Some vs \<Rightarrow> vs)"

definition logPrefix :: "env \<Rightarrow> LoggedCmd \<Rightarrow> 64 word \<Rightarrow> string" where
  "logPrefix e l count =
     filepath_Join [if LogDir l = [] then TMPDIR e else LogDir l,
                    Sprintf_count e (LogFmt l) (sint count) @ Args l ! 0]"

definition invocationLogPath :: "env \<Rightarrow> LoggedCmd \<Rightarrow> 64 word \<Rightarrow> string" where
  "invocationLogPath e l count = logPrefix e l count @ ''.invocation.log''"

definition logPath :: "env \<Rightarrow> LoggedCmd \<Rightarrow> 64 word \<Rightarrow> string" where
  "logPath e l count = logPrefix e l count @ ''.stdoutstderr.log''"

definition invocationLog :: "env \<Rightarrow> outcome \<Rightarrow> LoggedCmd \<Rightarrow> string \<Rightarrow> string" where
  "invocationLog e oc l workDir =
     ''Execution started: '' @ show_time e (started oc) @ [CHR 0x0A] @
     ''Working directory: '' @ Quote e workDir @ [CHR 0x0A] @
     ''Command ('' @ itoa (int (length (Args l))) @ '' elements):'' @ [CHR 0x0A, CHR 0x09] @
     Join (quoteStrings (Args l)) [CHR 0x0A, CHR 0x09] @ [CHR 0x0A] @
     ''Environment ('' @ itoa (int (length (Env_list l))) @ '' elements):'' @ [CHR 0x0A, CHR 0x09] @
     Join (quoteStrings (Env_list l)) [CHR 0x0A, CHR 0x09] @ [CHR 0x0A]"

text \<open>The marker of the provisional log; its last character but one is U+2026.\<close>

definition still_running :: string where
  "still_running = ''(Still running'' @ [CHR 0xE2, CHR 0x80, CHR 0xA6] @ '')''"

definition finish_line :: "env \<Rightarrow> outcome \<Rightarrow> string" where
  "finish_line e oc =
     ''Execution finished: '' @ show_time e (finished oc) @
     '' (duration: '' @ show_duration e (time_Sub (finished oc) (started oc)) @ '')''"

definition error_message :: "env \<Rightarrow> string \<Rightarrow> string \<Rightarrow> string \<Rightarrow> string \<Rightarrow> string \<Rightarrow> string" where
  "error_message e commandline rerr ilp lp firstLogLine =
     ''Running '' @ Quote e commandline @ '': '' @ rerr @ [CHR 0x0A] @
     ''See '' @ Quote e ilp @ '' for invocation details.'' @ [CHR 0x0A] @
     ''See '' @ Quote e lp @ '' for full stdout/stderr.'' @ [CHR 0x0A] @
     ''First stdout/stderr line: '' @ Quote e firstLogLine @ [CHR 0x0A]"

text \<open>
  \<open>Run\<close> in steps. \<open>Run_trace\<close> gives the error \<open>Run\<close> returns and the states of the
  world in the order \<open>Run\<close> goes through them, each with the step that led to it:
  the command line printed by the \<open>Logger\<close>, the counter taken and incremented, the
  provisional invocation log written, the log of standard output and error opened and
  \<open>(os/exec).Cmd.Run\<close> called, one state per write of the child, the child's exit, the
  temporary file created, written, and renamed over the invocation log.
\<close>

datatype step =
    Printed
  | Counted
  | ProvisionalWritten
  | ChildStarted
  | ChildWrote
  | ChildExited
  | TempCreated
  | TempWritten
  | Renamed

text \<open>
  The part of \<open>Run\<close> after the child has exited: the final log goes to a temporary
  file, which is closed and renamed over the invocation log; then the error of the
  child, if any, is wrapped.
\<close>

definition Run_finish ::
  "env \<Rightarrow> outcome \<Rightarrow> string \<Rightarrow> string \<Rightarrow> string \<Rightarrow> string \<Rightarrow> world
     \<Rightarrow> error option \<times> (step \<times> world) list" where
  "Run_finish e oc commandline ilp lp ilog w4 =
     (case TempFile e (Dir_of ilp) ''.invocation-log-'' w4 of
        Inl err \<Rightarrow> (Some err, [])
      | Inr (f, w5) \<Rightarrow>
          let w6 = w5\<lparr>files := (files w5)(f \<mapsto> Fprintln (ilog @ finish_line e oc))\<rparr>;
              t6 = [(TempCreated, w5), (TempWritten, w6)]
          in case faults e (OpClose f) of
               Some x \<Rightarrow> (Some (IOError (OpClose f) x), t6)
             | None \<Rightarrow>
                 (case Rename e f ilp w6 of
                    Inl err \<Rightarrow> (Some err, t6)
                  | Inr w7 \<Rightarrow>
                      (case runErr oc of
                         None \<Rightarrow> (None, t6 @ [(Renamed, w7)])
                       | Some x \<Rightarrow>
                           (Some (ExecutionError
                              (error_message e commandline x ilp lp
                                 (FirstLine (foldl cw_Write cw_init (chunks oc))))),
                            t6 @ [(Renamed, w7)]))))"

text \<open>The working directory that goes into the log: \<open>l.Dir\<close>, or \<open>os.Getwd()\<close>.\<close>

definition workDir_of :: "env \<Rightarrow> LoggedCmd \<Rightarrow> error + string" where
  "workDir_of e l =
     (if Dir l = []
      then (case faults e OpGetwd of
              Some x \<Rightarrow> Inl (IOError OpGetwd x)
            | None \<Rightarrow> Inr (cwd e))
      else Inr (Dir l))"

definition Run_trace ::
  "env \<Rightarrow> outcome \<Rightarrow> LoggedCmd \<Rightarrow> world \<Rightarrow> error option \<times> (step \<times> world) list" where
  "Run_trace e oc l w =
     (let commandline = Join (Args l) '' '';
          w0 = w\<lparr>logged := logged w @ [commandline]\<rparr>
      in if Args l = [] then (Some IndexOutOfRange, [(Printed, w0)])
      else
        let ilp = invocationLogPath e l (cmdCount w0);
            lp = logPath e l (cmdCount w0);
            w1 = w0\<lparr>cmdCount := cmdCount w0 + 1\<rparr>;
            t1 = [(Printed, w0), (Counted, w1)]
        in case workDir_of e l of
             Inl err \<Rightarrow> (Some err, t1)
           | Inr workDir \<Rightarrow>
               let ilog = invocationLog e oc l workDir in
               (case WriteFile e ilp (ilog @ still_running) w1 of
                  Inl err \<Rightarrow> (Some err, t1)
                | Inr w2 \<Rightarrow>
                    (case OpenFile e lp w2 of
                       Inl err \<Rightarrow> (Some err, t1 @ [(ProvisionalWritten, w2)])
                     | Inr w3 \<Rightarrow>
                         let written = (\<lambda>k. w3\<lparr>files := (files w3)(lp \<mapsto> concat (take k (chunks oc)))\<rparr>);
                             w4 = written (length (chunks oc));
                             t4 = t1 @ [(ProvisionalWritten, w2), (ChildStarted, w3)]
                                  @ map (\<lambda>k. (ChildWrote, written k)) [1..<Suc (length (chunks oc))]
                                  @ [(ChildExited, w4)]
                         in case Run_finish e oc commandline ilp lp ilog w4 of
                              (r, t7) \<Rightarrow> (r, t4 @ t7))))"

definition is_execution_error :: "error option \<Rightarrow> bool" where
  "is_execution_error r = (case r of Some (ExecutionError m) \<Rightarrow> True | _ \<Rightarrow> False)"

definition Run :: "env \<Rightarrow> outcome \<Rightarrow> LoggedCmd \<Rightarrow> world \<Rightarrow> error option \<times> world" where
  "Run e oc l w = (case Run_trace e oc l w of (r, tr) \<Rightarrow> (r, snd (last tr)))"


section \<open>getpatch.go\<close>

subsection \<open>Resolving the repository\<close>

text \<open>
  \<open>repositoryFor\<close> runs \<open>debcheckout --print\<close> through \<open>(os/exec).Cmd.Output\<close>; what the
  external program prints (or the error of running it) is the parameter \<open>output\<close>, a
  function of the command built by the current factory \<open>newCommand\<close>.
\<close>

definition rewriteURL :: "string \<Rightarrow> string" where
  "rewriteURL url =
     (if Contains url ''anonscm.debian.org'' then
        Replace1 (Replace1 (Replace1 url ''git'' ''git+ssh'')
                    ''anonscm.debian.org'' ''git.debian.org'')
          ''debian.org'' ''debian.org/git''
      else url)"

definition repositoryFor ::
  "(string \<Rightarrow> string list \<Rightarrow> LoggedCmd) \<Rightarrow> (LoggedCmd \<Rightarrow> error + string) \<Rightarrow> string
     \<Rightarrow> error + (string \<times> string)" where
  "repositoryFor newCommand output sourcePackage =
     (let cmd = newCommand ''debcheckout'' [''--print'', sourcePackage] in
      case output cmd of
        Inl err \<Rightarrow> Inl err
      | Inr out \<Rightarrow>
          (let parts = Split (CHR 0x09) (TrimSpace out) in
           if length parts \<noteq> 2 then Inl (UnexpectedOutput (Args cmd) out parts)
           else Inr (parts ! 0, rewriteURL (parts ! 1))))"

subsection \<open>The command factory\<close>

text \<open>
  \<open>os.LookupEnv\<close>, \<open>os.Getenv\<close> and \<open>os.Environ\<close> on the environment of the process, a
  list of variables with their values in which the first entry of a name counts.
\<close>

definition LookupEnv :: "env \<Rightarrow> string \<Rightarrow> string option" where
  "LookupEnv e variable = map_of (environ e) variable"


definition Environ :: "env \<Rightarrow> string list" where
  "Environ e = map (\<lambda>(k, v). k @ ''='' @ v) (environ e)"

text \<open>
  The environment \<open>(os/exec).Cmd\<close> starts the child with: the list \<open>Env\<close>, and the
  environment of the current process when \<open>Env\<close> is \<open>nil\<close>.
\<close>

definition child_environment :: "env \<Rightarrow> LoggedCmd \<Rightarrow> string list" where
  "child_environment e l = (case Env l of None \<Rightarrow> Environ e | Some vs \<Rightarrow> vs)"

definition passthrough :: "string list" where
  "passthrough = [''DEBFULLNAME'', ''DEBEMAIL'', ''SSH_AGENT_PID'', ''GPG_AGENT_INFO'', ''SSH_AUTH_SOCK'']"

text \<open>
  The factory \<open>mergeAndBuild\<close> puts into \<open>newCommand\<close> once the temporary directory
  exists, and the one that wraps it and sets the working directory to the checkout.
\<close>

definition newCommand_tempDir :: "env \<Rightarrow> string \<Rightarrow> string \<Rightarrow> string list \<Rightarrow> LoggedCmd" where
  "newCommand_tempDir e tempDir name arg =
     foldl (\<lambda>cmd variable.
              case LookupEnv e variable of
                Some val \<Rightarrow> cmd\<lparr>Env := Some (Env_list cmd @ [variable @ ''='' @ val])\<rparr>
              | None \<Rightarrow> cmd)
       ((Command name arg)\<lparr>LogDir := tempDir\<rparr>) passthrough"

definition newCommand_checkout ::
  "(string \<Rightarrow> string list \<Rightarrow> LoggedCmd) \<Rightarrow> string \<Rightarrow> string \<Rightarrow> string list \<Rightarrow> LoggedCmd" where
  "newCommand_checkout previousNewCommand checkoutDir name arg =
     (previousNewCommand name arg)\<lparr>Dir := checkoutDir\<rparr>"

subsection \<open>The pipeline\<close>

















section \<open>Concrete inputs\<close>

text \<open>
  An environment in which no operation fails (its \<open>Quote\<close> puts double quotes around
  a string, right for a string without quotes, backslashes and control characters; its
  clock prints nanoseconds), one in which closing a file fails, and a file system that
  holds one changelog. \<open>unlines\<close> writes a file as its lines, each
  ended by a newline.
\<close>

definition dq :: "string \<Rightarrow> string" where
  "dq s = [CHR 0x22] @ s @ [CHR 0x22]"

definition env0 :: env where
  "env0 = \<lparr>faults = (\<lambda>_. None), read_error = (\<lambda>_. None), rnd = ''123456789'',
     TMPDIR = ''/tmp'', cwd = ''/'', self = ''/usr/bin/mergebot'', environ = [],
     Quote = dq, show_time = (\<lambda>t. itoa t),
     show_duration = (\<lambda>d. itoa d @ ''ns''), Sprintf_other = (\<lambda>f n. f)\<rparr>"

definition env_close_fails :: env where
  "env_close_fails =
     env0\<lparr>faults := (\<lambda>op. case op of OpClose _ \<Rightarrow> Some ''input/output error'' | _ \<Rightarrow> None)\<rparr>"

definition changelog_world :: "string \<Rightarrow> world" where
  "changelog_world content =
     \<lparr>files = [''/r/changelog'' \<mapsto> content], dirs = {''/'', ''/r''}, cmdCount = 0, logged = []\<rparr>"

definition unlines :: "string list \<Rightarrow> string" where
  "unlines ls = concat (map Fprintln ls)"

text \<open>
  A file system with the directory \<open>/tmp\<close> and a fresh counter, and the outcome of
  a failing \<open>ls\<close> whose output arrives in two writes.
\<close>

definition tmp_world :: world where
  "tmp_world = \<lparr>files = Map.empty, dirs = {''/'', ''/tmp''}, cmdCount = 0, logged = []\<rparr>"

definition ls_fails :: outcome where
  "ls_fails = \<lparr>started = 1000, finished = 3000, runErr = Some ''exit status 2'',
     chunks = [''ls: cannot access'', '' /tmp/nope'' @ [CHR 0x0A] @ ''ls: more'']\<rparr>"

definition ls_cmd :: LoggedCmd where
  "ls_cmd = (Command ''ls'' [])\<lparr>LogDir := ''/tmp''\<rparr>"

definition ls_ok :: outcome where
  "ls_ok = \<lparr>started = 1000, finished = 3000, runErr = None, chunks = []\<rparr>"

text \<open>The header of the invocation log of \<open>ls_cmd\<close> started at 1000 in the directory \<open>/\<close>.\<close>

definition ls_header :: string where
  "ls_header = unlines
     [''Execution started: 1000'', ''Working directory: '' @ dq ''/'', ''Command (1 elements):'',
      [CHR 0x09] @ dq ''ls'', ''Environment (0 elements):'', [CHR 0x09]]"

text \<open>
  A process environment in which none of the five variables of the factory is set, and
  answers of the outside in which the repository is not a git repository.
\<close>

definition env_plain :: env where
  "env_plain = env0\<lparr>environ := [(''PATH'', ''/usr/bin''), (''API_TOKEN'', ''secret'')]\<rparr>"


section \<open>Facts about the file system operations\<close>

lemmas fs_defs = TempFile_def Open_def Remove_def Rename_def WriteFile_def OpenFile_def
  Dir_of_def Clean_def HasPrefix_def Fprintln_def filepath_Join.simps

lemmas filter_defs = filterChangelog_def scan_file_def MaxScanTokenSize_def dropCR_def
  filter_lines_def filter_step_def filter_init_def

lemmas example_defs = env0_def env_close_fails_def changelog_world_def unlines_def dq_def

lemmas run_defs = invocationLogPath_def logPath_def logPrefix_def Sprintf_count_def fmt_03d_def
  decimal.simps itoa_def invocationLog_def still_running_def finish_line_def error_message_def
  quoteStrings_def Env_list_def time_Sub_def FirstLine_def cw_Write_def cw_init_def
  LastIndexByte_def Command_def numeral_2_eq_2

lemmas run_example_defs = tmp_world_def ls_cmd_def ls_ok_def ls_fails_def ls_header_def







section \<open>Facts about cleaned paths\<close>





























text \<open>
  C5. On the URL \<open>git://anonscm.debian.org/pkg.git\<close> the three ordered replacements
  (first "git" to "git+ssh", "anonscm.debian.org" to "git.debian.org", first
  "debian.org" to "debian.org/git") give \<open>git+ssh://git.debian.org/git/pkg.git\<close>, also
  through \<open>repositoryFor\<close> on the line \<open>debcheckout\<close> prints; a URL that does not
  contain "anonscm.debian.org" is returned as it is.
\<close>

theorem repositoryFor_rewrite:
  "Replace1 ''git://anonscm.debian.org/pkg.git'' ''git'' ''git+ssh''
     = ''git+ssh://anonscm.debian.org/pkg.git''
   \<and> Replace1 ''git+ssh://anonscm.debian.org/pkg.git'' ''anonscm.debian.org'' ''git.debian.org''
     = ''git+ssh://git.debian.org/pkg.git''
   \<and> Replace1 ''git+ssh://git.debian.org/pkg.git'' ''debian.org'' ''debian.org/git''
     = ''git+ssh://git.debian.org/git/pkg.git''
   \<and> rewriteURL ''git://anonscm.debian.org/pkg.git'' = ''git+ssh://git.debian.org/git/pkg.git''
   \<and> repositoryFor nc (\<lambda>c. Inr (''git'' @ [CHR 0x09] @ ''git://anonscm.debian.org/pkg.git'' @ [CHR 0x0A])) pkg
     = Inr (''git'', ''git+ssh://git.debian.org/git/pkg.git'')
   \<and> (\<forall>url. \<not> Contains url ''anonscm.debian.org'' \<longrightarrow> rewriteURL url = url)"
  by (simp add: rewriteURL_def repositoryFor_def HasPrefix_def TrimSpace_def space_runes_def Let_def)

theorem repositoryFor_rewrite_witness:
  "\<not> Contains ''git://git.example.org/pkg.git'' ''anonscm.debian.org''
   \<and> rewriteURL ''git://git.example.org/pkg.git'' = ''git://git.example.org/pkg.git''"
proof -
  have h: "\<not> Contains ''git://git.example.org/pkg.git'' ''anonscm.debian.org''"
    by (simp add: HasPrefix_def)
  have "\<forall>url. \<not> Contains url ''anonscm.debian.org'' \<longrightarrow> rewriteURL url = url"
    using repositoryFor_rewrite [of Command "''min''"] by (elim conjE)
  with h show ?thesis by blast
qed

section \<open>filterChangelog\<close>

text \<open>The test of the repository, \<open>TestFilterChangelog\<close>: the loop prints what the test expects.\<close>

lemma filterChangelog_test:
  "filter_lines
     [''wit (2.31a-3) unstable; urgency=medium'', [],
      ''  [ Chris Lamb ]'',
      ''  * Fix for '' @ [CHR 0xE2, CHR 0x80, CHR 0x9C] @ ''wit: please make the build reproducible''
        @ [CHR 0xE2, CHR 0x80, CHR 0x9D] @ '' (Closes: #831331)'',
      [],
      ''  [ Michael Stapelberg ]'',
      [],
      '' -- Michael Stapelberg <stapelberg@debian.org>  Sat, 16 Jul 2016 20:39:13 +0200'',
      [],
      ''wit (2.31a-2) unstable; urgency=low'',
      [],
      ''  [ Tobias Gruetzmacher ]'',
      ''  * Add zlib support (Closes: #815710)'',
      ''  * Don'' @ [CHR 0xE2, CHR 0x80, CHR 0x99] @ ''t link wfuse against libdl'',
      [],
      '' -- Michael Stapelberg <stapelberg@debian.org>  Tue, 23 Feb 2016 23:40:46 +0100'']
   = unlines
     [''wit (2.31a-3) unstable; urgency=medium'', [],
      ''  [ Chris Lamb ]'',
      ''  * Fix for '' @ [CHR 0xE2, CHR 0x80, CHR 0x9C] @ ''wit: please make the build reproducible''
        @ [CHR 0xE2, CHR 0x80, CHR 0x9D] @ '' (Closes: #831331)'',
      [],
      '' -- Michael Stapelberg <stapelberg@debian.org>  Sat, 16 Jul 2016 20:39:13 +0200'',
      [],
      ''wit (2.31a-2) unstable; urgency=low'',
      [],
      ''  [ Tobias Gruetzmacher ]'',
      ''  * Add zlib support (Closes: #815710)'',
      ''  * Don'' @ [CHR 0xE2, CHR 0x80, CHR 0x99] @ ''t link wfuse against libdl'',
      [],
      '' -- Michael Stapelberg <stapelberg@debian.org>  Tue, 23 Feb 2016 23:40:46 +0100'']"
  by (simp add: filter_lines_def filter_step_def filter_init_def unlines_def Fprintln_def HasPrefix_def Let_def)




text \<open>
  C2. The loop prints \<open>lastSection\<close> before every bullet line, not once before the
  first bullet of a section: a changelog entry with the header \<open>[ A ]\<close> and two bullets
  comes out with the header twice. With no header before a bullet the empty
  \<open>lastSection\<close> is printed, a blank line that follows another blank line.
\<close>

theorem filterChangelog_repeats_header:
  "filterChangelog env0 ''/r/changelog''
     (changelog_world (unlines [''pkg (1.1) unstable; urgency=low'', [],
        ''  [ A ]'', ''  * a'', ''  * b'', [], '' -- M'']))
   = (None, changelog_world (unlines [''pkg (1.1) unstable; urgency=low'', [],
        ''  [ A ]'', ''  * a'', ''  [ A ]'', ''  * b'', [], '' -- M'']))
   \<and> filter_lines [''pkg (1.1) unstable; urgency=low'', [], ''  * a'', '' -- M'']
     = unlines [''pkg (1.1) unstable; urgency=low'', [], [], ''  * a'', '' -- M'']"
  by (simp add: example_defs fs_defs filter_defs Let_def)

text \<open>
  C7. Filtering is not idempotent on a changelog whose bullets stand under no
  contributor header: the first pass puts a blank line before each bullet, and the
  second pass puts another one before the second bullet.
\<close>

theorem filterChangelog_second_pass_differs:
  "filterChangelog env0 ''/r/changelog''
     (changelog_world (unlines [''pkg (1.1) unstable; urgency=low'', [],
        ''  * a'', ''  * b'', [], '' -- M'']))
   = (None, changelog_world (unlines [''pkg (1.1) unstable; urgency=low'', [],
        [], ''  * a'', [], ''  * b'', [], '' -- M'']))
   \<and> filterChangelog env0 ''/r/changelog''
     (changelog_world (unlines [''pkg (1.1) unstable; urgency=low'', [],
        [], ''  * a'', [], ''  * b'', [], '' -- M'']))
   = (None, changelog_world (unlines [''pkg (1.1) unstable; urgency=low'', [],
        [], ''  * a'', [], [], ''  * b'', [], '' -- M'']))"
  by (simp add: example_defs fs_defs filter_defs Let_def)

section \<open>Run, step by step\<close>

lemma WriteFile_Inr: "WriteFile e n c w = Inr w' \<Longrightarrow> w' = w\<lparr>files := (files w)(n \<mapsto> c)\<rparr>"
  unfolding WriteFile_def by (auto split: option.splits if_splits)

lemma OpenFile_Inr: "OpenFile e n w = Inr w' \<Longrightarrow> w' = w\<lparr>files := (files w)(n \<mapsto> [])\<rparr>"
  unfolding OpenFile_def by (auto split: option.splits if_splits)


lemma WriteFile_Inl: "WriteFile e n c w = Inl err \<Longrightarrow> \<not> is_execution_error (Some err) \<and> err \<noteq> IndexOutOfRange"
  unfolding WriteFile_def is_execution_error_def by (auto split: option.splits if_splits)

lemma OpenFile_Inl: "OpenFile e n w = Inl err \<Longrightarrow> \<not> is_execution_error (Some err) \<and> err \<noteq> IndexOutOfRange"
  unfolding OpenFile_def is_execution_error_def by (auto split: option.splits if_splits)

lemma workDir_of_Inl: "workDir_of e l = Inl err \<Longrightarrow> \<not> is_execution_error (Some err) \<and> err \<noteq> IndexOutOfRange"
  unfolding workDir_of_def is_execution_error_def by (auto split: option.splits if_splits)

lemma workDir_of_Inr: "workDir_of e l = Inr d \<Longrightarrow> d = (if Dir l = [] then cwd e else Dir l)"
  unfolding workDir_of_def by (auto split: option.splits if_splits)


lemma Run_trace_elim [consumes 1, case_names Panic Getwd Write Open Child]:
  assumes run: "Run_trace e oc l w = (r, tr)"
  obtains
    (Panic) "Args l = []" "r = Some IndexOutOfRange"
      "tr = [(Printed, w\<lparr>logged := logged w @ [Join (Args l) '' '']\<rparr>)]"
  | (Getwd) err where "Args l \<noteq> []" "workDir_of e l = Inl err" "r = Some err"
      "tr = [(Printed, w\<lparr>logged := logged w @ [Join (Args l) '' '']\<rparr>),
             (Counted, w\<lparr>logged := logged w @ [Join (Args l) '' ''], cmdCount := cmdCount w + 1\<rparr>)]"
  | (Write) err where "Args l \<noteq> []"
      "WriteFile e (invocationLogPath e l (cmdCount w))
         (invocationLog e oc l (if Dir l = [] then cwd e else Dir l) @ still_running)
         (w\<lparr>logged := logged w @ [Join (Args l) '' ''], cmdCount := cmdCount w + 1\<rparr>) = Inl err"
      "r = Some err"
      "tr = [(Printed, w\<lparr>logged := logged w @ [Join (Args l) '' '']\<rparr>),
             (Counted, w\<lparr>logged := logged w @ [Join (Args l) '' ''], cmdCount := cmdCount w + 1\<rparr>)]"
  | (Open) w2 err where "Args l \<noteq> []"
      "w2 = w\<lparr>logged := logged w @ [Join (Args l) '' ''], cmdCount := cmdCount w + 1,
              files := (files w)(invocationLogPath e l (cmdCount w) \<mapsto>
                 invocationLog e oc l (if Dir l = [] then cwd e else Dir l) @ still_running)\<rparr>"
      "OpenFile e (logPath e l (cmdCount w)) w2 = Inl err" "r = Some err"
      "tr = [(Printed, w\<lparr>logged := logged w @ [Join (Args l) '' '']\<rparr>),
             (Counted, w\<lparr>logged := logged w @ [Join (Args l) '' ''], cmdCount := cmdCount w + 1\<rparr>),
             (ProvisionalWritten, w2)]"
  | (Child) w2 w3 t7 where "Args l \<noteq> []"
      "w2 = w\<lparr>logged := logged w @ [Join (Args l) '' ''], cmdCount := cmdCount w + 1,
              files := (files w)(invocationLogPath e l (cmdCount w) \<mapsto>
                 invocationLog e oc l (if Dir l = [] then cwd e else Dir l) @ still_running)\<rparr>"
      "w3 = w2\<lparr>files := (files w2)(logPath e l (cmdCount w) \<mapsto> [])\<rparr>"
      "Run_finish e oc (Join (Args l) '' '') (invocationLogPath e l (cmdCount w))
         (logPath e l (cmdCount w)) (invocationLog e oc l (if Dir l = [] then cwd e else Dir l))
         (w3\<lparr>files := (files w3)(logPath e l (cmdCount w) \<mapsto> concat (chunks oc))\<rparr>) = (r, t7)"
      "tr = [(Printed, w\<lparr>logged := logged w @ [Join (Args l) '' '']\<rparr>),
             (Counted, w\<lparr>logged := logged w @ [Join (Args l) '' ''], cmdCount := cmdCount w + 1\<rparr>),
             (ProvisionalWritten, w2), (ChildStarted, w3)]
            @ map (\<lambda>k. (ChildWrote, w3\<lparr>files := (files w3)(logPath e l (cmdCount w) \<mapsto>
                                         concat (take k (chunks oc)))\<rparr>))
                [1..<Suc (length (chunks oc))]
            @ [(ChildExited, w3\<lparr>files := (files w3)(logPath e l (cmdCount w) \<mapsto> concat (chunks oc))\<rparr>)]
            @ t7"
proof -
  let ?ilp = "invocationLogPath e l (cmdCount w)"
  let ?lp = "logPath e l (cmdCount w)"
  let ?wd = "if Dir l = [] then cwd e else Dir l"
  let ?ilog = "invocationLog e oc l ?wd"
  let ?w0 = "w\<lparr>logged := logged w @ [Join (Args l) '' '']\<rparr>"
  let ?w1 = "w\<lparr>logged := logged w @ [Join (Args l) '' ''], cmdCount := cmdCount w + 1\<rparr>"
  show thesis
  proof (cases "Args l = []")
    case True
    with run show thesis by (intro Panic) (auto simp: Run_trace_def Let_def)
  next
    case False
    note args = False
    show thesis
    proof (cases "workDir_of e l")
      case (Inl err)
      with run args show thesis by (intro Getwd [of err]) (auto simp: Run_trace_def Let_def)
    next
      case (Inr d)
      then have d: "d = ?wd" by (rule workDir_of_Inr)
      note wd = Inr [unfolded d]
      show thesis
      proof (cases "WriteFile e ?ilp (?ilog @ still_running) ?w1")
        case (Inl err)
        with run args wd show thesis by (intro Write [of err]) (auto simp: Run_trace_def Let_def)
      next
        case (Inr w2)
        note wf = Inr
        from WriteFile_Inr [OF Inr]
        have w2: "w2 = ?w1\<lparr>files := (files ?w1)(?ilp \<mapsto> ?ilog @ still_running)\<rparr>" .
        show thesis
        proof (cases "OpenFile e ?lp w2")
          case (Inl err)
          with run args wd wf w2 show thesis
            by (intro Open [of w2 err]) (auto simp: Run_trace_def Let_def)
        next
          case (Inr w3)
          note opf = Inr
          from OpenFile_Inr [OF Inr] have w3: "w3 = w2\<lparr>files := (files w2)(?lp \<mapsto> [])\<rparr>" .
          obtain r7 t7 where fin: "Run_finish e oc (Join (Args l) '' '') ?ilp ?lp ?ilog
              (w3\<lparr>files := (files w3)(?lp \<mapsto> concat (chunks oc))\<rparr>) = (r7, t7)"
            by (cases "Run_finish e oc (Join (Args l) '' '') ?ilp ?lp ?ilog
              (w3\<lparr>files := (files w3)(?lp \<mapsto> concat (chunks oc))\<rparr>)")
          from run args wd wf opf fin w2 w3 show thesis
            by (intro Child [of w2 w3 t7]) (auto simp: Run_trace_def Let_def)
        qed
      qed
    qed
  qed
qed




lemma Run_finish_result:
  assumes fin: "Run_finish e oc cl ilp lp ilog w4 = (r, t7)"
  shows "r \<noteq> Some IndexOutOfRange
    \<and> (t7 = [] \<or> (\<exists>s. last t7 = (TempWritten, s)) \<or> (\<exists>s. last t7 = (Renamed, s)))
    \<and> ((\<exists>s. t7 \<noteq> [] \<and> last t7 = (Renamed, s)) \<longrightarrow>
          r = (case runErr oc of None \<Rightarrow> None
               | Some x \<Rightarrow> Some (ExecutionError (error_message e cl x ilp lp
                                  (FirstLine (foldl cw_Write cw_init (chunks oc)))))))
    \<and> (\<not> (\<exists>s. t7 \<noteq> [] \<and> last t7 = (Renamed, s)) \<longrightarrow> r \<noteq> None \<and> \<not> is_execution_error r)"
  using fin
  by (auto simp: Run_finish_def Let_def is_execution_error_def TempFile_def Rename_def
      split: option.splits sum.splits if_splits prod.splits)



lemma Run_trace_result:
  assumes run: "Run_trace e oc l w = (r, tr)"
  shows "tr \<noteq> []
    \<and> (r = Some IndexOutOfRange) = (Args l = [])
    \<and> (fst (last tr) = Printed) = (Args l = [])
    \<and> ((\<exists>s. last tr = (Renamed, s)) \<longrightarrow>
          r = (case runErr oc of None \<Rightarrow> None
               | Some x \<Rightarrow> Some (ExecutionError (error_message e (Join (Args l) '' '') x
                                  (invocationLogPath e l (cmdCount w)) (logPath e l (cmdCount w))
                                  (FirstLine (foldl cw_Write cw_init (chunks oc)))))))
    \<and> (\<not> (\<exists>s. last tr = (Renamed, s)) \<longrightarrow> r \<noteq> None \<and> \<not> is_execution_error r)"
  using run
proof (cases rule: Run_trace_elim)
  case (Child w2 w3 t7)
  from Run_finish_result [OF Child(4)] show ?thesis
    unfolding Child(5) using Child(1) by (cases "t7 = []") auto
qed (auto simp: is_execution_error_def dest: WriteFile_Inl OpenFile_Inl workDir_of_Inl)


lemma IndexByte_takeWhile:
  "(if IndexByte s c = -1 then s else take (nat (IndexByte s c)) s) = takeWhile (\<lambda>x. x \<noteq> c) s"
proof (induction s)
  case Nil
  show ?case by simp
next
  case (Cons x s)
  have nonneg: "\<And>t. IndexByte t c = -1 \<or> 0 \<le> IndexByte t c"
  proof -
    fix t show "IndexByte t c = -1 \<or> 0 \<le> IndexByte t c"
      by (induction t) (auto simp: Let_def)
  qed
  from Cons nonneg [of s] show ?case
    by (auto simp: Let_def nat_add_distrib)
qed

lemma IndexByte_mem: "(IndexByte s c = -1) = (c \<notin> set s)"
proof (induction s)
  case Nil
  show ?case by simp
next
  case (Cons x s)
  have nonneg: "\<And>t. IndexByte t c = -1 \<or> 0 \<le> IndexByte t c"
  proof -
    fix t show "IndexByte t c = -1 \<or> 0 \<le> IndexByte t c"
      by (induction t) (auto simp: Let_def)
  qed
  from Cons nonneg [of s] show ?case by (auto simp: Let_def)
qed

lemma LastIndexByte_mem: "(LastIndexByte p c \<noteq> -1) = (c \<in> set p)"
proof -
  have nonneg: "\<And>t. IndexByte t c = -1 \<or> (0 \<le> IndexByte t c \<and> IndexByte t c < int (length t))"
  proof -
    fix t show "IndexByte t c = -1 \<or> (0 \<le> IndexByte t c \<and> IndexByte t c < int (length t))"
      by (induction t) (auto simp: Let_def)
  qed
  from nonneg [of "rev p"] IndexByte_mem [of "rev p" c] show ?thesis
    by (auto simp: LastIndexByte_def Let_def)
qed

lemma FirstLine_eq: "FirstLine c = takeWhile (\<lambda>x. x \<noteq> CHR 0x0A) (Data c)"
  using IndexByte_takeWhile [of "Data c" "CHR 0x0A"] by (simp add: FirstLine_def Let_def)

lemma FirstLine_foldl:
  "newlineSeen c \<longrightarrow> CHR 0x0A \<in> set (Data c) \<Longrightarrow>
     FirstLine (foldl cw_Write c cs) = takeWhile (\<lambda>x. x \<noteq> CHR 0x0A) (Data c @ concat cs)"
proof (induction cs arbitrary: c)
  case Nil
  show ?case by (simp add: FirstLine_eq)
next
  case (Cons p cs)
  show ?case
  proof (cases "newlineSeen c")
    case True
    with Cons.prems have nl: "CHR 0x0A \<in> set (Data c)" by simp
    from True have "cw_Write c p = c" by (simp add: cw_Write_def)
    with Cons.IH [of c] Cons.prems nl show ?thesis
      by (simp add: takeWhile_append1)
  next
    case False
    then have w: "cw_Write c p = \<lparr>Data = Data c @ p, newlineSeen = (CHR 0x0A \<in> set p)\<rparr>"
      by (simp add: cw_Write_def LastIndexByte_mem)
    have "newlineSeen (cw_Write c p) \<longrightarrow> CHR 0x0A \<in> set (Data (cw_Write c p))"
      by (simp add: w)
    from Cons.IH [OF this] show ?thesis by (simp add: w)
  qed
qed

lemma FirstLine_chunks:
  "FirstLine (foldl cw_Write cw_init cs) = takeWhile (\<lambda>x. x \<noteq> CHR 0x0A) (concat cs)"
  using FirstLine_foldl [of cw_init cs] by (simp add: cw_init_def)




section \<open>LoggedCmd.Run\<close>



lemma ls_paths:
  "invocationLogPath env0 ls_cmd 0 = ''/tmp/000-ls.invocation.log''"
  "logPath env0 ls_cmd 0 = ''/tmp/000-ls.stdoutstderr.log''"
  by (simp_all add: example_defs run_example_defs fs_defs run_defs Let_def)




text \<open>
  C3 (as amended). When the child process fails, \<open>Run\<close> returns an error. Unless
  writing a log file failed (then that error is returned), it is the execution error
  with exactly this text: the quoted command line, the error of the process, the
  quoted paths of the invocation log and of the log of standard output and error, and
  the quoted first line of the merged output, which is the output up to the first
  newline byte, the newline not included.
\<close>

theorem Run_error_message:
  assumes run: "Run_trace e oc l w = (r, tr)"
    and fails: "runErr oc = Some x"
  shows "r \<noteq> None
    \<and> ((\<exists>s. last tr = (Renamed, s)) \<longrightarrow>
         r = Some (ExecutionError
           (''Running '' @ Quote e (Join (Args l) '' '') @ '': '' @ x @ [CHR 0x0A]
            @ ''See '' @ Quote e (invocationLogPath e l (cmdCount w))
            @ '' for invocation details.'' @ [CHR 0x0A]
            @ ''See '' @ Quote e (logPath e l (cmdCount w))
            @ '' for full stdout/stderr.'' @ [CHR 0x0A]
            @ ''First stdout/stderr line: ''
            @ Quote e (takeWhile (\<lambda>c. c \<noteq> CHR 0x0A) (concat (chunks oc))) @ [CHR 0x0A])))
    \<and> (\<not> (\<exists>s. last tr = (Renamed, s)) \<longrightarrow> \<not> is_execution_error r)"
  using Run_trace_result [OF run] fails
  by (auto simp: error_message_def FirstLine_chunks)


lemma ls_fails_trace:
  "map fst (snd (Run_trace env0 ls_fails ls_cmd tmp_world))
     = [Printed, Counted, ProvisionalWritten, ChildStarted, ChildWrote, ChildWrote, ChildExited,
        TempCreated, TempWritten, Renamed]"
  by (simp add: Run_trace_def Run_finish_def workDir_of_def example_defs run_example_defs
      fs_defs run_defs Let_def upt_rec)

theorem Run_error_message_witness:
  "runErr ls_fails = Some ''exit status 2''
   \<and> fst (Run_trace env0 ls_fails ls_cmd tmp_world)
     = Some (ExecutionError (unlines
         [''Running '' @ dq ''ls'' @ '': exit status 2'',
          ''See '' @ dq ''/tmp/000-ls.invocation.log'' @ '' for invocation details.'',
          ''See '' @ dq ''/tmp/000-ls.stdoutstderr.log'' @ '' for full stdout/stderr.'',
          ''First stdout/stderr line: '' @ dq ''ls: cannot access /tmp/nope'']))"
proof -
  let ?t = "Run_trace env0 ls_fails ls_cmd tmp_world"
  have run: "?t = (fst ?t, snd ?t)" by simp
  have fails: "runErr ls_fails = Some ''exit status 2''" by (simp add: ls_fails_def)
  have "map fst (snd ?t) \<noteq> []" and "last (map fst (snd ?t)) = Renamed"
    using ls_fails_trace by simp_all
  then have "fst (last (snd ?t)) = Renamed" by (simp add: last_map)
  then have renamed: "\<exists>s. last (snd ?t) = (Renamed, s)" by (cases "last (snd ?t)") simp
  from Run_error_message [OF run fails] renamed
  have "fst ?t = Some (ExecutionError
           (''Running '' @ Quote env0 (Join (Args ls_cmd) '' '') @ '': '' @ ''exit status 2'' @ [CHR 0x0A]
            @ ''See '' @ Quote env0 (invocationLogPath env0 ls_cmd (cmdCount tmp_world))
            @ '' for invocation details.'' @ [CHR 0x0A]
            @ ''See '' @ Quote env0 (logPath env0 ls_cmd (cmdCount tmp_world))
            @ '' for full stdout/stderr.'' @ [CHR 0x0A]
            @ ''First stdout/stderr line: ''
            @ Quote env0 (takeWhile (\<lambda>c. c \<noteq> CHR 0x0A) (concat (chunks ls_fails))) @ [CHR 0x0A]))"
    by blast
  moreover have "cmdCount tmp_world = 0" and "Args ls_cmd = [''ls'']" and "Quote env0 = dq"
    and "chunks ls_fails = [''ls: cannot access'', '' /tmp/nope'' @ [CHR 0x0A] @ ''ls: more'']"
    by (simp_all add: tmp_world_def ls_cmd_def Command_def env0_def ls_fails_def)
  ultimately show ?thesis
    using fails by (simp add: ls_paths unlines_def Fprintln_def)
qed

text \<open>
  The first line \<open>FirstLine\<close> returns stops before the newline and does not include
  it.
\<close>

theorem FirstLine_without_newline:
  "FirstLine (foldl cw_Write cw_init [''ab'' @ [CHR 0x0A] @ ''cd'', ''ef'']) = ''ab''
   \<and> FirstLine (foldl cw_Write cw_init [''ab'' @ [CHR 0x0A] @ ''cd'', ''ef'']) \<noteq> ''ab'' @ [CHR 0x0A]"
  by (simp add: FirstLine_def cw_Write_def cw_init_def LastIndexByte_def Let_def)




text \<open>
  C9. The program component of the log file names is \<open>Args[0]\<close> as it stands, not its
  base name: for the program \<open>/bin/ls\<close> the invocation log is
  \<open>/tmp/000-/bin/ls.invocation.log\<close>, a file of the directory \<open>/tmp/000-/bin\<close> and not of
  \<open>LogDir\<close>, and \<open>Run\<close> fails on writing it before the child is started. For the
  program \<open>ls\<close> the names are \<open>/tmp/000-ls.invocation.log\<close> and
  \<open>/tmp/000-ls.stdoutstderr.log\<close>.
\<close>

theorem Run_log_names_of_program_path:
  "invocationLogPath env0 ((Command ''/bin/ls'' [])\<lparr>LogDir := ''/tmp''\<rparr>) 0
     = ''/tmp/000-/bin/ls.invocation.log''
   \<and> logPath env0 ((Command ''/bin/ls'' [])\<lparr>LogDir := ''/tmp''\<rparr>) 0
     = ''/tmp/000-/bin/ls.stdoutstderr.log''
   \<and> Dir_of ''/tmp/000-/bin/ls.invocation.log'' = ''/tmp/000-/bin''
   \<and> Run env0 ls_ok ((Command ''/bin/ls'' [])\<lparr>LogDir := ''/tmp''\<rparr>) tmp_world
     = (Some (NotExist ''/tmp/000-/bin/ls.invocation.log''),
        tmp_world\<lparr>logged := [''/bin/ls''], cmdCount := 1\<rparr>)
   \<and> invocationLogPath env0 ls_cmd 0 = ''/tmp/000-ls.invocation.log''
   \<and> logPath env0 ls_cmd 0 = ''/tmp/000-ls.stdoutstderr.log''"
  by (simp add: Run_def Run_trace_def workDir_of_def example_defs run_example_defs
      fs_defs run_defs Let_def)

section \<open>The pipeline\<close>

















section \<open>The command factory\<close>

lemma newCommand_tempDir_Env:
  "Env_list (newCommand_tempDir e t name arg)
     = List.map_filter (\<lambda>v. map_option (\<lambda>x. v @ ''='' @ x) (LookupEnv e v)) passthrough"
  by (simp add: newCommand_tempDir_def passthrough_def Env_list_def Command_def
      List.map_filter_simps split: option.splits)

lemma newCommand_tempDir_nil:
  "(Env (newCommand_tempDir e t name arg) = None)
     = (list_all (\<lambda>v. LookupEnv e v = None) passthrough)"
  by (simp add: newCommand_tempDir_def passthrough_def Env_list_def Command_def
      split: option.splits)

text \<open>
  C6. When none of the five variables is set, the factory leaves \<open>Env\<close> at \<open>nil\<close>, and
  a child started from a command with a \<open>nil\<close> \<open>Env\<close> gets the whole environment of
  the process: a variable outside the list reaches the child, and changing it
  changes what the child gets.
\<close>

theorem newCommand_nil_Env_forwards_everything:
  "Env (newCommand_checkout (newCommand_tempDir env_plain ''/tmp/m'') ''/tmp/m/repo''
          ''git'' [''add'', ''.'']) = None
   \<and> child_environment env_plain
        (newCommand_checkout (newCommand_tempDir env_plain ''/tmp/m'') ''/tmp/m/repo''
           ''git'' [''add'', ''.''])
     = [''PATH=/usr/bin'', ''API_TOKEN=secret'']
   \<and> child_environment (env_plain\<lparr>environ := [(''PATH'', ''/usr/bin''), (''API_TOKEN'', ''other'')]\<rparr>)
        (newCommand_checkout
           (newCommand_tempDir
              (env_plain\<lparr>environ := [(''PATH'', ''/usr/bin''), (''API_TOKEN'', ''other'')]\<rparr>) ''/tmp/m'')
           ''/tmp/m/repo'' ''git'' [''add'', ''.''])
     = [''PATH=/usr/bin'', ''API_TOKEN=other'']
   \<and> child_environment
        (env_plain\<lparr>environ := [(''DEBEMAIL'', ''a@b''), (''PATH'', ''/usr/bin''), (''API_TOKEN'', ''secret'')]\<rparr>)
        (newCommand_checkout
           (newCommand_tempDir
              (env_plain\<lparr>environ := [(''DEBEMAIL'', ''a@b''), (''PATH'', ''/usr/bin''), (''API_TOKEN'', ''secret'')]\<rparr>)
              ''/tmp/m'')
           ''/tmp/m/repo'' ''git'' [''add'', ''.''])
     = [''DEBEMAIL=a@b'']"
  by (simp add: newCommand_checkout_def newCommand_tempDir_def passthrough_def child_environment_def
      Environ_def LookupEnv_def Env_list_def Command_def env_plain_def env0_def)

end
